theory Spec2Isabelle
  imports Main "HOL-Library.Sublist" "HOL-Library.Word"
begin

section \<open>Python values\<close>

text \<open>
  A Python \<^verbatim>\<open>str\<close> is a sequence of Unicode code points, so it is a list of naturals
  here; \<^verbatim>\<open>bytes\<close> is a list of 8-bit words. ASCII literals of the source are written
  with \<open>str\<close>; the newline is code point 10 and the slash code point 47.
\<close>

type_synonym pystr = "nat list"
type_synonym bytes = "8 word list"

abbreviation (input) str :: "string \<Rightarrow> pystr" where
  "str cs \<equiv> map of_char cs"

abbreviation (input) NL :: nat where "NL \<equiv> 10"
abbreviation (input) SLASH :: nat where "SLASH \<equiv> 47"

text \<open>The exceptions that the two modules can meet. \<open>BackendError\<close> stands for whatever
  the storage client or a library raises (any subclass of \<^verbatim>\<open>Exception\<close>).\<close>

datatype exn = ValueError | TypeError | UnicodeDecodeError | UnicodeEncodeError | BackendError

text \<open>\<^verbatim>\<open>s.split(c)\<close> for a one-character separator, and \<^verbatim>\<open>sep.join(xs)\<close>.\<close>

fun split_on :: "nat \<Rightarrow> pystr \<Rightarrow> pystr list" where
  "split_on c [] = [[]]"
| "split_on c (x # xs) =
     (if x = c then [] # split_on c xs
      else (case split_on c xs of [] \<Rightarrow> [[x]] | w # ws \<Rightarrow> (x # w) # ws))"

fun join :: "pystr \<Rightarrow> pystr list \<Rightarrow> pystr" where
  "join sep [] = []"
| "join sep [x] = x"
| "join sep (x # y # ys) = x @ sep @ join sep (y # ys)"

text \<open>\<^verbatim>\<open>s.endswith(suffix)\<close>.\<close>

definition endswith :: "pystr \<Rightarrow> pystr \<Rightarrow> bool" where
  "endswith s suf = suffix suf s"

text \<open>
  \<^verbatim>\<open>s.lower()\<close>. Only the ASCII letters are mapped. The source uses \<^verbatim>\<open>lower\<close> only in
  front of \<^verbatim>\<open>.endswith('.docx')\<close>, and no code point outside ASCII lowercases to a string
  containing one of the characters of \<^verbatim>\<open>.docx\<close>, so the test is the same.
\<close>

definition lower_cp :: "nat \<Rightarrow> nat" where
  "lower_cp c = (if 65 \<le> c \<and> c \<le> 90 then c + 32 else c)"

definition lower :: "pystr \<Rightarrow> pystr" where
  "lower s = map lower_cp s"

section \<open>The storage client and the libraries\<close>

text \<open>
  \<^verbatim>\<open>YandexDiskClient\<close> holds the root folder and a \<^verbatim>\<open>yadisk.Client\<close>. The client is
  outside the repository: it is a record of operations over a remote state \<open>'st\<close>. Each
  operation may raise (\<open>Inl\<close>). Queries leave the remote state as it is; a call that
  raises leaves it as it is too.
\<close>

record 'st disk =
  root_folder :: pystr
  client_exists :: "'st \<Rightarrow> pystr \<Rightarrow> exn + bool"
  client_mkdir :: "'st \<Rightarrow> pystr \<Rightarrow> exn + 'st"
  client_download :: "'st \<Rightarrow> pystr \<Rightarrow> exn + bytes"
  client_upload :: "'st \<Rightarrow> bytes \<Rightarrow> pystr \<Rightarrow> exn + 'st"

text \<open>
  The libraries imported by \<^verbatim>\<open>yadisk_client.py\<close>: the flag
  \<^verbatim>\<open>CHARSET_DETECT_AVAILABLE\<close>; \<^verbatim>\<open>str(from_bytes(raw).best())\<close> of charset-normalizer
  (\<open>Inr None\<close> when the best match is falsy); and python-docx, as the paragraph texts of a
  stored document and as the file saved from a new document with one
  \<^verbatim>\<open>add_paragraph\<close> per text. Local temporary files are taken to work: creating,
  writing, reading and unlinking them never fails, and text mode writes \<^verbatim>\<open>\n\<close> as it
  is (POSIX).
\<close>

record libs =
  charset_detect_available :: bool
  from_bytes_best :: "bytes \<Rightarrow> exn + pystr option"
  docx_parse :: "bytes \<Rightarrow> exn + pystr list"
  docx_build :: "pystr list \<Rightarrow> exn + bytes"

definition full_path :: "'st disk \<Rightarrow> pystr \<Rightarrow> pystr" where
  "full_path d remote_path = str ''/'' @ root_folder d @ str ''/'' @ remote_path"

subsection \<open>\<^verbatim>\<open>ensure_folder_exists\<close>\<close>

text \<open>The loop over the path segments. An exception ends it with \<open>False\<close>; the folders made
  before stay made.\<close>

fun ensure_loop :: "'st disk \<Rightarrow> 'st \<Rightarrow> pystr \<Rightarrow> pystr list \<Rightarrow> bool \<times> 'st" where
  "ensure_loop d st current_path [] = (True, st)"
| "ensure_loop d st current_path (part # parts) =
     (if part = [] then ensure_loop d st current_path parts
      else
        (let current_path' = current_path @ str ''/'' @ part in
         case client_exists d st current_path' of
           Inl e \<Rightarrow> (False, st)
         | Inr True \<Rightarrow> ensure_loop d st current_path' parts
         | Inr False \<Rightarrow>
             (case client_mkdir d st current_path' of
                Inl e \<Rightarrow> (False, st)
              | Inr st' \<Rightarrow> ensure_loop d st' current_path' parts)))"

definition ensure_folder_exists :: "'st disk \<Rightarrow> 'st \<Rightarrow> pystr \<Rightarrow> bool \<times> 'st" where
  "ensure_folder_exists d st remote_path =
     ensure_loop d st (str ''/'' @ root_folder d) (split_on SLASH remote_path)"

text \<open>\<^verbatim>\<open>'/'.join(remote_path.split('/')[:-1])\<close>, then the folder is ensured when the
  name is not empty; the result of \<^verbatim>\<open>ensure_folder_exists\<close> is not looked at.\<close>

definition parent_folder :: "pystr \<Rightarrow> pystr" where
  "parent_folder remote_path = join (str ''/'') (butlast (split_on SLASH remote_path))"

definition ensure_parent :: "'st disk \<Rightarrow> 'st \<Rightarrow> pystr \<Rightarrow> 'st" where
  "ensure_parent d st remote_path =
     (let folder_path = parent_folder remote_path in
      if folder_path \<noteq> [] then snd (ensure_folder_exists d st folder_path) else st)"

subsection \<open>\<^verbatim>\<open>read_docx\<close> and \<^verbatim>\<open>write_docx\<close>\<close>

definition read_docx :: "'st disk \<Rightarrow> libs \<Rightarrow> 'st \<Rightarrow> pystr \<Rightarrow> pystr option" where
  "read_docx d L st remote_path =
     (case client_exists d st (full_path d remote_path) of
        Inl e \<Rightarrow> None
      | Inr False \<Rightarrow> None
      | Inr True \<Rightarrow>
          (case client_download d st (full_path d remote_path) of
             Inl e \<Rightarrow> None
           | Inr blob \<Rightarrow>
               (case docx_parse L blob of
                  Inl e \<Rightarrow> None
                | Inr paragraphs \<Rightarrow> Some (join [NL] paragraphs))))"

definition write_docx :: "'st disk \<Rightarrow> libs \<Rightarrow> 'st \<Rightarrow> pystr \<Rightarrow> pystr \<Rightarrow> bool \<times> 'st" where
  "write_docx d L st remote_path content =
     (let st1 = ensure_parent d st remote_path in
      case docx_build L (split_on NL content) of
        Inl e \<Rightarrow> (False, st1)
      | Inr blob \<Rightarrow>
          (case client_upload d st1 blob (full_path d remote_path) of
             Inl e \<Rightarrow> (False, st1)
           | Inr st2 \<Rightarrow> (True, st2)))"

section \<open>Codecs\<close>

subsection \<open>UTF-8\<close>

text \<open>\<^verbatim>\<open>s.encode('utf-8')\<close>: a surrogate code point cannot be encoded
  (\<^verbatim>\<open>UnicodeEncodeError\<close>, here \<open>None\<close>). A Python string holds no code point above
  \<^verbatim>\<open>0x10FFFF\<close>.\<close>

definition utf8_encode_cp :: "nat \<Rightarrow> bytes option" where
  "utf8_encode_cp c =
     (if c < 0x80 then Some [of_nat c]
      else if c < 0x800 then Some [of_nat (0xC0 + c div 64), of_nat (0x80 + c mod 64)]
      else if 0xD800 \<le> c \<and> c \<le> 0xDFFF then None
      else if c < 0x10000 then
        Some [of_nat (0xE0 + c div 4096), of_nat (0x80 + c div 64 mod 64),
              of_nat (0x80 + c mod 64)]
      else if c < 0x110000 then
        Some [of_nat (0xF0 + c div 262144), of_nat (0x80 + c div 4096 mod 64),
              of_nat (0x80 + c div 64 mod 64), of_nat (0x80 + c mod 64)]
      else None)"

fun utf8_encode :: "pystr \<Rightarrow> bytes option" where
  "utf8_encode [] = Some []"
| "utf8_encode (c # cs) =
     (case utf8_encode_cp c of
        None \<Rightarrow> None
      | Some b \<Rightarrow> map_option ((@) b) (utf8_encode cs))"

text \<open>
  \<^verbatim>\<open>raw.decode('utf-8', errors=...)\<close> on the numeric values of the bytes. An ill-formed
  sequence raises under \<open>Strict\<close> (\<open>None\<close>); under \<open>Ignore\<close> its maximal well-formed prefix
  (at least the lead byte) is dropped and decoding goes on at the next byte, as
  CPython does.
\<close>

datatype errors = Strict | Ignore

definition on_error :: "errors \<Rightarrow> pystr option \<Rightarrow> pystr option" where
  "on_error m rest = (case m of Strict \<Rightarrow> None | Ignore \<Rightarrow> rest)"

definition emit :: "nat \<Rightarrow> pystr option \<Rightarrow> pystr option" where
  "emit c rest = map_option ((#) c) rest"

definition is_cont :: "nat \<Rightarrow> bool" where
  "is_cont b \<longleftrightarrow> 0x80 \<le> b \<and> b \<le> 0xBF"

definition second_ok3 :: "nat \<Rightarrow> nat \<Rightarrow> bool" where
  "second_ok3 b0 b1 \<longleftrightarrow> is_cont b1 \<and> (b0 = 0xE0 \<longrightarrow> 0xA0 \<le> b1) \<and> (b0 = 0xED \<longrightarrow> b1 \<le> 0x9F)"

definition second_ok4 :: "nat \<Rightarrow> nat \<Rightarrow> bool" where
  "second_ok4 b0 b1 \<longleftrightarrow> is_cont b1 \<and> (b0 = 0xF0 \<longrightarrow> 0x90 \<le> b1) \<and> (b0 = 0xF4 \<longrightarrow> b1 \<le> 0x8F)"

fun utf8_dec :: "errors \<Rightarrow> nat list \<Rightarrow> pystr option" where
  "utf8_dec m [] = Some []"
| "utf8_dec m (b0 # bs) =
     (if b0 < 0x80 then emit b0 (utf8_dec m bs)
      else if 0xC2 \<le> b0 \<and> b0 \<le> 0xDF then
        (case bs of
           [] \<Rightarrow> on_error m (Some [])
         | b1 # r1 \<Rightarrow>
             if is_cont b1 then emit ((b0 - 0xC0) * 64 + (b1 - 0x80)) (utf8_dec m r1)
             else on_error m (utf8_dec m bs))
      else if 0xE0 \<le> b0 \<and> b0 \<le> 0xEF then
        (case bs of
           [] \<Rightarrow> on_error m (Some [])
         | b1 # r1 \<Rightarrow>
             if \<not> second_ok3 b0 b1 then on_error m (utf8_dec m bs)
             else
               (case r1 of
                  [] \<Rightarrow> on_error m (Some [])
                | b2 # r2 \<Rightarrow>
                    if is_cont b2 then
                      emit ((b0 - 0xE0) * 4096 + (b1 - 0x80) * 64 + (b2 - 0x80)) (utf8_dec m r2)
                    else on_error m (utf8_dec m r1)))
      else if 0xF0 \<le> b0 \<and> b0 \<le> 0xF4 then
        (case bs of
           [] \<Rightarrow> on_error m (Some [])
         | b1 # r1 \<Rightarrow>
             if \<not> second_ok4 b0 b1 then on_error m (utf8_dec m bs)
             else
               (case r1 of
                  [] \<Rightarrow> on_error m (Some [])
                | b2 # r2 \<Rightarrow>
                    if \<not> is_cont b2 then on_error m (utf8_dec m r1)
                    else
                      (case r2 of
                         [] \<Rightarrow> on_error m (Some [])
                       | b3 # r3 \<Rightarrow>
                           if is_cont b3 then
                             emit ((b0 - 0xF0) * 262144 + (b1 - 0x80) * 4096
                                   + (b2 - 0x80) * 64 + (b3 - 0x80)) (utf8_dec m r3)
                           else on_error m (utf8_dec m r2))))
      else on_error m (utf8_dec m bs))"

definition utf8_decode :: "errors \<Rightarrow> bytes \<Rightarrow> pystr option" where
  "utf8_decode m raw = utf8_dec m (map unat raw)"

subsection \<open>The single-byte code pages\<close>

text \<open>
  A charmap codec decodes byte by byte through its 256-entry decoding table and raises
  \<^verbatim>\<open>UnicodeDecodeError\<close> on a byte whose entry is the undefined mark \<^verbatim>\<open>U+FFFE\<close>. The
  tables are those of CPython's \<^verbatim>\<open>encodings\<close> package; their lower halves are ASCII.
\<close>

definition UNDEFINED :: nat where
  "UNDEFINED = 0xFFFE"

definition charmap_decode :: "nat list \<Rightarrow> bytes \<Rightarrow> pystr option" where
  "charmap_decode table raw =
     (if list_ex (\<lambda>b. table ! unat b = UNDEFINED) raw then None
      else Some (map (\<lambda>b. table ! unat b) raw))"

definition decoding_table_cp1251 :: "nat list" where
  "decoding_table_cp1251 = [0..<128] @
       [
        0x0402, 0x0403, 0x201A, 0x0453, 0x201E, 0x2026, 0x2020, 0x2021,
        0x20AC, 0x2030, 0x0409, 0x2039, 0x040A, 0x040C, 0x040B, 0x040F,
        0x0452, 0x2018, 0x2019, 0x201C, 0x201D, 0x2022, 0x2013, 0x2014,
        0xFFFE, 0x2122, 0x0459, 0x203A, 0x045A, 0x045C, 0x045B, 0x045F,
        0x00A0, 0x040E, 0x045E, 0x0408, 0x00A4, 0x0490, 0x00A6, 0x00A7,
        0x0401, 0x00A9, 0x0404, 0x00AB, 0x00AC, 0x00AD, 0x00AE, 0x0407,
        0x00B0, 0x00B1, 0x0406, 0x0456, 0x0491, 0x00B5, 0x00B6, 0x00B7,
        0x0451, 0x2116, 0x0454, 0x00BB, 0x0458, 0x0405, 0x0455, 0x0457,
        0x0410, 0x0411, 0x0412, 0x0413, 0x0414, 0x0415, 0x0416, 0x0417,
        0x0418, 0x0419, 0x041A, 0x041B, 0x041C, 0x041D, 0x041E, 0x041F,
        0x0420, 0x0421, 0x0422, 0x0423, 0x0424, 0x0425, 0x0426, 0x0427,
        0x0428, 0x0429, 0x042A, 0x042B, 0x042C, 0x042D, 0x042E, 0x042F,
        0x0430, 0x0431, 0x0432, 0x0433, 0x0434, 0x0435, 0x0436, 0x0437,
        0x0438, 0x0439, 0x043A, 0x043B, 0x043C, 0x043D, 0x043E, 0x043F,
        0x0440, 0x0441, 0x0442, 0x0443, 0x0444, 0x0445, 0x0446, 0x0447,
        0x0448, 0x0449, 0x044A, 0x044B, 0x044C, 0x044D, 0x044E, 0x044F]"

definition decoding_table_koi8_r :: "nat list" where
  "decoding_table_koi8_r = [0..<128] @
       [
        0x2500, 0x2502, 0x250C, 0x2510, 0x2514, 0x2518, 0x251C, 0x2524,
        0x252C, 0x2534, 0x253C, 0x2580, 0x2584, 0x2588, 0x258C, 0x2590,
        0x2591, 0x2592, 0x2593, 0x2320, 0x25A0, 0x2219, 0x221A, 0x2248,
        0x2264, 0x2265, 0x00A0, 0x2321, 0x00B0, 0x00B2, 0x00B7, 0x00F7,
        0x2550, 0x2551, 0x2552, 0x0451, 0x2553, 0x2554, 0x2555, 0x2556,
        0x2557, 0x2558, 0x2559, 0x255A, 0x255B, 0x255C, 0x255D, 0x255E,
        0x255F, 0x2560, 0x2561, 0x0401, 0x2562, 0x2563, 0x2564, 0x2565,
        0x2566, 0x2567, 0x2568, 0x2569, 0x256A, 0x256B, 0x256C, 0x00A9,
        0x044E, 0x0430, 0x0431, 0x0446, 0x0434, 0x0435, 0x0444, 0x0433,
        0x0445, 0x0438, 0x0439, 0x043A, 0x043B, 0x043C, 0x043D, 0x043E,
        0x043F, 0x044F, 0x0440, 0x0441, 0x0442, 0x0443, 0x0436, 0x0432,
        0x044C, 0x044B, 0x0437, 0x0448, 0x044D, 0x0449, 0x0447, 0x044A,
        0x042E, 0x0410, 0x0411, 0x0426, 0x0414, 0x0415, 0x0424, 0x0413,
        0x0425, 0x0418, 0x0419, 0x041A, 0x041B, 0x041C, 0x041D, 0x041E,
        0x041F, 0x042F, 0x0420, 0x0421, 0x0422, 0x0423, 0x0416, 0x0412,
        0x042C, 0x042B, 0x0417, 0x0428, 0x042D, 0x0429, 0x0427, 0x042A]"

definition decoding_table_cp866 :: "nat list" where
  "decoding_table_cp866 = [0..<128] @
       [
        0x0410, 0x0411, 0x0412, 0x0413, 0x0414, 0x0415, 0x0416, 0x0417,
        0x0418, 0x0419, 0x041A, 0x041B, 0x041C, 0x041D, 0x041E, 0x041F,
        0x0420, 0x0421, 0x0422, 0x0423, 0x0424, 0x0425, 0x0426, 0x0427,
        0x0428, 0x0429, 0x042A, 0x042B, 0x042C, 0x042D, 0x042E, 0x042F,
        0x0430, 0x0431, 0x0432, 0x0433, 0x0434, 0x0435, 0x0436, 0x0437,
        0x0438, 0x0439, 0x043A, 0x043B, 0x043C, 0x043D, 0x043E, 0x043F,
        0x2591, 0x2592, 0x2593, 0x2502, 0x2524, 0x2561, 0x2562, 0x2556,
        0x2555, 0x2563, 0x2551, 0x2557, 0x255D, 0x255C, 0x255B, 0x2510,
        0x2514, 0x2534, 0x252C, 0x251C, 0x2500, 0x253C, 0x255E, 0x255F,
        0x255A, 0x2554, 0x2569, 0x2566, 0x2560, 0x2550, 0x256C, 0x2567,
        0x2568, 0x2564, 0x2565, 0x2559, 0x2558, 0x2552, 0x2553, 0x256B,
        0x256A, 0x2518, 0x250C, 0x2588, 0x2584, 0x258C, 0x2590, 0x2580,
        0x0440, 0x0441, 0x0442, 0x0443, 0x0444, 0x0445, 0x0446, 0x0447,
        0x0448, 0x0449, 0x044A, 0x044B, 0x044C, 0x044D, 0x044E, 0x044F,
        0x0401, 0x0451, 0x0404, 0x0454, 0x0407, 0x0457, 0x040E, 0x045E,
        0x00B0, 0x2219, 0x00B7, 0x221A, 0x2116, 0x00A4, 0x25A0, 0x00A0]"

definition decoding_table_iso8859_5 :: "nat list" where
  "decoding_table_iso8859_5 = [0..<128] @
       [
        0x0080, 0x0081, 0x0082, 0x0083, 0x0084, 0x0085, 0x0086, 0x0087,
        0x0088, 0x0089, 0x008A, 0x008B, 0x008C, 0x008D, 0x008E, 0x008F,
        0x0090, 0x0091, 0x0092, 0x0093, 0x0094, 0x0095, 0x0096, 0x0097,
        0x0098, 0x0099, 0x009A, 0x009B, 0x009C, 0x009D, 0x009E, 0x009F,
        0x00A0, 0x0401, 0x0402, 0x0403, 0x0404, 0x0405, 0x0406, 0x0407,
        0x0408, 0x0409, 0x040A, 0x040B, 0x040C, 0x00AD, 0x040E, 0x040F,
        0x0410, 0x0411, 0x0412, 0x0413, 0x0414, 0x0415, 0x0416, 0x0417,
        0x0418, 0x0419, 0x041A, 0x041B, 0x041C, 0x041D, 0x041E, 0x041F,
        0x0420, 0x0421, 0x0422, 0x0423, 0x0424, 0x0425, 0x0426, 0x0427,
        0x0428, 0x0429, 0x042A, 0x042B, 0x042C, 0x042D, 0x042E, 0x042F,
        0x0430, 0x0431, 0x0432, 0x0433, 0x0434, 0x0435, 0x0436, 0x0437,
        0x0438, 0x0439, 0x043A, 0x043B, 0x043C, 0x043D, 0x043E, 0x043F,
        0x0440, 0x0441, 0x0442, 0x0443, 0x0444, 0x0445, 0x0446, 0x0447,
        0x0448, 0x0449, 0x044A, 0x044B, 0x044C, 0x044D, 0x044E, 0x044F,
        0x2116, 0x0451, 0x0452, 0x0453, 0x0454, 0x0455, 0x0456, 0x0457,
        0x0458, 0x0459, 0x045A, 0x045B, 0x045C, 0x00A7, 0x045E, 0x045F]"

datatype encoding = UTF_8 | WINDOWS_1251 | KOI8_R | CP866 | ISO_8859_5

text \<open>\<^verbatim>\<open>raw.decode(encoding)\<close>; \<open>None\<close> is \<^verbatim>\<open>UnicodeDecodeError\<close>.\<close>

fun py_decode :: "encoding \<Rightarrow> bytes \<Rightarrow> pystr option" where
  "py_decode UTF_8 raw = utf8_decode Strict raw"
| "py_decode WINDOWS_1251 raw = charmap_decode decoding_table_cp1251 raw"
| "py_decode KOI8_R raw = charmap_decode decoding_table_koi8_r raw"
| "py_decode CP866 raw = charmap_decode decoding_table_cp866 raw"
| "py_decode ISO_8859_5 raw = charmap_decode decoding_table_iso8859_5 raw"

section \<open>Plain-text files\<close>

subsection \<open>\<^verbatim>\<open>_fallback_decode\<close>\<close>

definition encodings :: "encoding list" where
  "encodings = [UTF_8, WINDOWS_1251, KOI8_R, CP866, ISO_8859_5]"

text \<open>A leading byte-order mark \<^verbatim>\<open>U+FEFF\<close> is cut: \<^verbatim>\<open>content[1:]\<close> when \<^verbatim>\<open>content\<close> is
  not empty and starts with it.\<close>

definition strip_bom :: "pystr \<Rightarrow> pystr" where
  "strip_bom content = (if content \<noteq> [] \<and> hd content = 0xFEFF then tl content else content)"

text \<open>The loop returns at the first encoding that decodes; \<open>None\<close> is falling out of it.\<close>

fun fallback_loop :: "encoding list \<Rightarrow> bytes \<Rightarrow> pystr option" where
  "fallback_loop [] raw_data = None"
| "fallback_loop (encoding # rest) raw_data =
     (case py_decode encoding raw_data of
        Some content \<Rightarrow> Some (strip_bom content)
      | None \<Rightarrow> fallback_loop rest raw_data)"

definition fallback_decode :: "bytes \<Rightarrow> pystr option" where
  "fallback_decode raw_data =
     (case fallback_loop encodings raw_data of
        Some content \<Rightarrow> Some content
      | None \<Rightarrow> utf8_decode Ignore raw_data)"

subsection \<open>\<^verbatim>\<open>_read_text_file\<close> and \<^verbatim>\<open>_write_text_file\<close>\<close>

definition read_text_file :: "'st disk \<Rightarrow> libs \<Rightarrow> 'st \<Rightarrow> pystr \<Rightarrow> pystr option" where
  "read_text_file d L st remote_path =
     (case client_exists d st (full_path d remote_path) of
        Inl e \<Rightarrow> None
      | Inr False \<Rightarrow> None
      | Inr True \<Rightarrow>
          (case client_download d st (full_path d remote_path) of
             Inl e \<Rightarrow> None
           | Inr raw_data \<Rightarrow>
               if charset_detect_available L \<and> raw_data \<noteq> [] then
                 (case from_bytes_best L raw_data of
                    Inl e \<Rightarrow> fallback_decode raw_data
                  | Inr None \<Rightarrow> fallback_decode raw_data
                  | Inr (Some content) \<Rightarrow> Some (strip_bom content))
               else fallback_decode raw_data))"

definition write_text_file :: "'st disk \<Rightarrow> 'st \<Rightarrow> pystr \<Rightarrow> pystr \<Rightarrow> bool \<times> 'st" where
  "write_text_file d st remote_path content =
     (let st1 = ensure_parent d st remote_path in
      case utf8_encode content of
        None \<Rightarrow> (False, st1)
      | Some raw \<Rightarrow>
          (case client_upload d st1 raw (full_path d remote_path) of
             Inl e \<Rightarrow> (False, st1)
           | Inr st2 \<Rightarrow> (True, st2)))"

subsection \<open>\<^verbatim>\<open>read_file\<close> and \<^verbatim>\<open>write_file\<close>\<close>

definition read_file :: "'st disk \<Rightarrow> libs \<Rightarrow> 'st \<Rightarrow> pystr \<Rightarrow> pystr option" where
  "read_file d L st remote_path =
     (if endswith (lower remote_path) (str ''.docx'') then read_docx d L st remote_path
      else read_text_file d L st remote_path)"

definition write_file :: "'st disk \<Rightarrow> libs \<Rightarrow> 'st \<Rightarrow> pystr \<Rightarrow> pystr \<Rightarrow> bool \<times> 'st" where
  "write_file d L st remote_path content =
     (if endswith (lower remote_path) (str ''.docx'') then write_docx d L st remote_path content
      else write_text_file d st remote_path content)"

section \<open>More of Python\<close>

text \<open>\<^verbatim>\<open>s.replace(old, new)\<close> for a non-empty \<open>old\<close>: left to right, without overlaps.\<close>

function py_replace :: "pystr \<Rightarrow> pystr \<Rightarrow> pystr \<Rightarrow> pystr" where
  "py_replace old new [] = []"
| "py_replace old new (c # cs) =
     (if old \<noteq> [] \<and> prefix old (c # cs)
      then new @ py_replace old new (drop (length old) (c # cs))
      else c # py_replace old new cs)"
  by pat_completeness auto
termination
  by (relation "measure (\<lambda>(old, new, s). length s)") auto

text \<open>\<^verbatim>\<open>s.strip()\<close>: the code points for which \<^verbatim>\<open>str.isspace\<close> holds are cut at both
  ends.\<close>

definition isspace :: "nat \<Rightarrow> bool" where
  "isspace c \<longleftrightarrow>
     (9 \<le> c \<and> c \<le> 13) \<or> (28 \<le> c \<and> c \<le> 32) \<or> c = 0x85 \<or> c = 0xA0 \<or> c = 0x1680
     \<or> (0x2000 \<le> c \<and> c \<le> 0x200A) \<or> c = 0x2028 \<or> c = 0x2029 \<or> c = 0x202F
     \<or> c = 0x205F \<or> c = 0x3000"

definition strip :: "pystr \<Rightarrow> pystr" where
  "strip s = rev (dropWhile isspace (rev (dropWhile isspace s)))"

text \<open>\<^verbatim>\<open>xs[i:]\<close>: a negative \<open>i\<close> counts from the end, and both kinds are clamped to the
  bounds of the list, which \<open>nat\<close> and \<open>drop\<close> do.\<close>

definition slice_from :: "int \<Rightarrow> 'a list \<Rightarrow> 'a list" where
  "slice_from i xs = (if i < 0 then drop (nat (int (length xs) + i)) xs else drop (nat i) xs)"

text \<open>The truth value of an \<^verbatim>\<open>Optional[str]\<close>, and its text inside an f-string.\<close>

definition truthy :: "pystr option \<Rightarrow> bool" where
  "truthy v = (case v of None \<Rightarrow> False | Some s \<Rightarrow> s \<noteq> [])"

definition pyfmt :: "pystr option \<Rightarrow> pystr" where
  "pyfmt v = (case v of None \<Rightarrow> str ''None'' | Some s \<Rightarrow> s)"

text \<open>A \<^verbatim>\<open>dict\<close> in insertion order: \<^verbatim>\<open>d[k] = v\<close> and \<^verbatim>\<open>d.get(k)\<close> for a dictionary of
  type \<^verbatim>\<open>Dict[str, Optional[str]]\<close>.\<close>

fun dict_set :: "'k \<Rightarrow> 'v \<Rightarrow> ('k \<times> 'v) list \<Rightarrow> ('k \<times> 'v) list" where
  "dict_set k v [] = [(k, v)]"
| "dict_set k v ((k', v') # kvs) =
     (if k' = k then (k, v) # kvs else (k', v') # dict_set k v kvs)"

definition dict_get :: "('k \<times> 'v option) list \<Rightarrow> 'k \<Rightarrow> 'v option" where
  "dict_get kvs k = (case map_of kvs k of None \<Rightarrow> None | Some v \<Rightarrow> v)"

text \<open>Calling a function with a keyword argument: a keyword that is not among the
  parameters of the callee raises \<^verbatim>\<open>TypeError\<close> before the body runs.\<close>

definition call_kw :: "string list \<Rightarrow> string \<Rightarrow> 'a \<Rightarrow> exn + 'a" where
  "call_kw params keyword result = (if keyword \<in> set params then Inr result else Inl TypeError)"

subsection \<open>\<^verbatim>\<open>datetime\<close>\<close>

record datetime =
  year :: nat
  month :: nat
  day :: nat
  hour :: nat
  minute :: nat
  second :: nat

definition is_leap :: "nat \<Rightarrow> bool" where
  "is_leap y \<longleftrightarrow> y mod 4 = 0 \<and> (y mod 400 = 0 \<or> y mod 100 \<noteq> 0)"

definition days_in_month :: "nat \<Rightarrow> nat \<Rightarrow> nat" where
  "days_in_month y m =
     (if m = 2 then (if is_leap y then 29 else 28)
      else if m = 4 \<or> m = 6 \<or> m = 9 \<or> m = 11 then 30 else 31)"

definition valid_datetime :: "datetime \<Rightarrow> bool" where
  "valid_datetime dt \<longleftrightarrow>
     1 \<le> year dt \<and> year dt \<le> 9999 \<and> 1 \<le> month dt \<and> month dt \<le> 12
     \<and> 1 \<le> day dt \<and> day dt \<le> days_in_month (year dt) (month dt)
     \<and> hour dt < 24 \<and> minute dt < 60 \<and> second dt < 60"

text \<open>\<^verbatim>\<open>dt.replace(day=d)\<close> raises \<^verbatim>\<open>ValueError\<close> when \<open>d\<close> is not a day of the month
  of \<open>dt\<close>.\<close>

definition replace_day :: "datetime \<Rightarrow> int \<Rightarrow> exn + datetime" where
  "replace_day dt d =
     (if 1 \<le> d \<and> d \<le> int (days_in_month (year dt) (month dt))
      then Inr (dt\<lparr>day := nat d\<rparr>) else Inl ValueError)"

text \<open>\<^verbatim>\<open>strftime\<close> with the three formats of the source: \<^verbatim>\<open>%Y/%m/%d\<close>,
  \<^verbatim>\<open>%H:%M:%S\<close> and \<^verbatim>\<open>%Y-%m-%d %H:%M:%S\<close>. The month, day, hour, minute and second
  take two digits. The year is printed as the C library of Linux prints it, in decimal
  without padding: four digits from the year 1000 on, fewer before (a \<^verbatim>\<open>datetime\<close> has
  a year from 1 to 9999).\<close>

definition digit :: "nat \<Rightarrow> nat" where
  "digit n = 48 + n mod 10"

definition fmt02 :: "nat \<Rightarrow> pystr" where
  "fmt02 n = [digit (n div 10), digit n]"

definition fmt_year :: "nat \<Rightarrow> pystr" where
  "fmt_year y =
     (if y < 10 then [digit y]
      else if y < 100 then [digit (y div 10), digit y]
      else if y < 1000 then [digit (y div 100), digit (y div 10), digit y]
      else [digit (y div 1000), digit (y div 100), digit (y div 10), digit y])"

definition strftime_date_path :: "datetime \<Rightarrow> pystr" where
  "strftime_date_path dt =
     fmt_year (year dt) @ str ''/'' @ fmt02 (month dt) @ str ''/'' @ fmt02 (day dt)"

definition strftime_time :: "datetime \<Rightarrow> pystr" where
  "strftime_time dt = fmt02 (hour dt) @ str '':'' @ fmt02 (minute dt) @ str '':'' @ fmt02 (second dt)"

definition strftime_stamp :: "datetime \<Rightarrow> pystr" where
  "strftime_stamp dt =
     fmt_year (year dt) @ str ''-'' @ fmt02 (month dt) @ str ''-'' @ fmt02 (day dt)
     @ str '' '' @ strftime_time dt"

section \<open>\<^verbatim>\<open>ProfileManager\<close>\<close>

definition PROFILE_FILES :: "pystr list" where
  "PROFILE_FILES =
     [str ''key.docx'', str ''king.docx'', str ''rules.docx'', str ''library.docx'',
      str ''welcome.docx'']"

text \<open>The Cyrillic labels of the source, as code points: the headings of the persona,
  rules, knowledge and recent-messages sections, and the marker (the Russian word for
  ``added'', with its colon) of \<^verbatim>\<open>add_to_library\<close>.\<close>

definition label_king :: pystr where
  "label_king = [0x422, 0x42B, 0x20, 0x2014, 0x20, 0x41B, 0x418, 0x427, 0x41D, 0x41E, 0x421, 0x422, 0x42C, 0x3A]"

definition label_rules :: pystr where
  "label_rules = [0x41F, 0x420, 0x410, 0x412, 0x418, 0x41B, 0x410, 0x20, 0x41E, 0x411, 0x429, 0x415, 0x41D, 0x418, 0x42F, 0x3A]"

definition label_library :: pystr where
  "label_library = [0x422, 0x412, 0x41E, 0x418, 0x20, 0x417, 0x41D, 0x410, 0x41D, 0x418, 0x42F, 0x20, 0x418, 0x20, 0x41E, 0x41F, 0x42B, 0x422, 0x3A]"

definition label_recent :: pystr where
  "label_recent = [0x41F, 0x41E, 0x421, 0x41B, 0x415, 0x414, 0x41D, 0x418, 0x415, 0x20, 0x421, 0x41E, 0x41E, 0x411, 0x429, 0x415, 0x41D, 0x418, 0x42F, 0x20, 0x412, 0x20, 0x427, 0x410, 0x422, 0x415, 0x3A]"

definition label_added :: pystr where
  "label_added = [0x414, 0x41E, 0x411, 0x410, 0x412, 0x41B, 0x415, 0x41D, 0x41E, 0x3A]"

subsection \<open>\<^verbatim>\<open>get_profile_files\<close>\<close>

text \<open>
  One round of the loop, over what \<^verbatim>\<open>self.disk.read_file(path)\<close> does: it returns a
  text, returns \<^verbatim>\<open>None\<close>, or raises, and the handler of the loop body stores the empty
  string then.
\<close>

definition profile_file_step ::
  "(pystr \<Rightarrow> exn + pystr option) \<Rightarrow> pystr \<Rightarrow> (pystr \<times> pystr option) list \<Rightarrow> pystr
     \<Rightarrow> (pystr \<times> pystr option) list" where
  "profile_file_step disk_read_file profile_name files file_name =
     (let key = py_replace (str ''.docx'') [] file_name in
      case disk_read_file (profile_name @ str ''/'' @ file_name) of
        Inr content \<Rightarrow>
          if truthy content then dict_set key content files
          else dict_set key (Some []) files
      | Inl e \<Rightarrow> dict_set key (Some []) files)"

definition get_profile_files_from ::
  "(pystr \<Rightarrow> exn + pystr option) \<Rightarrow> pystr \<Rightarrow> (pystr \<times> pystr option) list" where
  "get_profile_files_from disk_read_file profile_name =
     foldl (profile_file_step disk_read_file profile_name) [] PROFILE_FILES"

text \<open>With the \<^verbatim>\<open>read_file\<close> of this repository, which returns \<^verbatim>\<open>None\<close> where the
  client or a library raises.\<close>

definition get_profile_files ::
  "'st disk \<Rightarrow> libs \<Rightarrow> 'st \<Rightarrow> pystr \<Rightarrow> (pystr \<times> pystr option) list" where
  "get_profile_files d L st profile_name =
     get_profile_files_from (\<lambda>path. Inr (read_file d L st path)) profile_name"

definition read_profile_file :: "'st disk \<Rightarrow> libs \<Rightarrow> 'st \<Rightarrow> pystr \<Rightarrow> pystr \<Rightarrow> pystr option" where
  "read_profile_file d L st profile_name file_key =
     dict_get (get_profile_files d L st profile_name) file_key"

definition save_profile_file ::
  "'st disk \<Rightarrow> libs \<Rightarrow> 'st \<Rightarrow> pystr \<Rightarrow> pystr \<Rightarrow> pystr \<Rightarrow> bool \<times> 'st" where
  "save_profile_file d L st profile_name file_key content =
     write_file d L st (profile_name @ str ''/'' @ file_key @ str ''.docx'') content"

subsection \<open>\<^verbatim>\<open>get_recent_messages\<close>\<close>

text \<open>\<open>now\<close> is the reading of the clock; the two readings of the source are taken to
  be the same. The result is \<open>Inl\<close> when the method raises.\<close>

definition log_path_of :: "pystr \<Rightarrow> datetime \<Rightarrow> pystr" where
  "log_path_of profile_name dt =
     profile_name @ str ''/logs/'' @ strftime_date_path dt @ str ''/log.txt''"

definition get_recent_messages ::
  "'st disk \<Rightarrow> libs \<Rightarrow> 'st \<Rightarrow> datetime \<Rightarrow> pystr \<Rightarrow> int \<Rightarrow> exn + pystr" where
  "get_recent_messages d L st now profile_name limit =
     (let today = now in
      case replace_day now (int (day today) - 1) of
        Inl e \<Rightarrow> Inl e
      | Inr yesterday \<Rightarrow>
          (let content = read_text_file d L st (log_path_of profile_name today);
               content = (if \<not> truthy content
                          then read_text_file d L st (log_path_of profile_name yesterday)
                          else content)
           in case content of
                None \<Rightarrow> Inr []
              | Some text \<Rightarrow>
                  if text = [] then Inr []
                  else
                    (let lines = split_on NL (strip text);
                         last_lines = (if int (length lines) > limit
                                       then slice_from (- limit) lines else lines)
                     in Inr (join [NL] last_lines))))"

subsection \<open>\<^verbatim>\<open>build_context\<close>\<close>

definition build_context ::
  "'st disk \<Rightarrow> libs \<Rightarrow> 'st \<Rightarrow> datetime \<Rightarrow> pystr \<Rightarrow> int \<Rightarrow> exn + pystr" where
  "build_context d L st now profile_name limit =
     (let files = get_profile_files d L st profile_name;
          parts = [];
          parts = (if truthy (dict_get files (str ''king''))
                   then parts @ [label_king @ [NL] @ pyfmt (dict_get files (str ''king'')) @ [NL]]
                   else parts);
          parts = (if truthy (dict_get files (str ''rules''))
                   then parts @ [label_rules @ [NL] @ pyfmt (dict_get files (str ''rules'')) @ [NL]]
                   else parts);
          parts = (if truthy (dict_get files (str ''library''))
                   then parts @ [label_library @ [NL] @ pyfmt (dict_get files (str ''library'')) @ [NL]]
                   else parts)
      in case get_recent_messages d L st now profile_name limit of
           Inl e \<Rightarrow> Inl e
         | Inr recent \<Rightarrow>
             (let parts = (if recent \<noteq> [] then parts @ [label_recent @ [NL] @ recent @ [NL]]
                           else parts)
              in Inr (join [NL] parts)))"

subsection \<open>\<^verbatim>\<open>save_message\<close>\<close>

text \<open>The parameters of \<^verbatim>\<open>_write_text_file\<close> after \<^verbatim>\<open>self\<close>. \<^verbatim>\<open>save_message\<close> calls it
  with the keyword \<^verbatim>\<open>append=True\<close>; the handler around the body of \<^verbatim>\<open>save_message\<close>
  catches what the call raises. The method returns nothing: the model returns the
  remote state it leaves.\<close>

definition write_text_file_params :: "string list" where
  "write_text_file_params = [''remote_path'', ''content'']"

definition log_entry_of :: "pystr \<Rightarrow> pystr \<Rightarrow> datetime \<Rightarrow> pystr" where
  "log_entry_of role text timestamp =
     str ''['' @ strftime_time timestamp @ str ''] '' @ role @ str '': '' @ text @ [NL]"

definition save_message :: "'st disk \<Rightarrow> 'st \<Rightarrow> pystr \<Rightarrow> pystr \<Rightarrow> pystr \<Rightarrow> datetime \<Rightarrow> 'st" where
  "save_message d st profile_name role text timestamp =
     (let date_path = strftime_date_path timestamp;
          log_path = profile_name @ str ''/logs/'' @ date_path @ str ''/log.txt'';
          folder_path = profile_name @ str ''/logs/'' @ date_path;
          st1 = snd (ensure_folder_exists d st folder_path);
          log_entry = log_entry_of role text timestamp
      in case call_kw write_text_file_params ''append''
                (write_text_file d st1 log_path log_entry) of
           Inl e \<Rightarrow> st1
         | Inr (success, st2) \<Rightarrow> st2)"

subsection \<open>\<^verbatim>\<open>add_to_library\<close>\<close>

definition added_block :: "datetime \<Rightarrow> pystr \<Rightarrow> pystr" where
  "added_block now text =
     [NL, NL] @ str ''['' @ strftime_stamp now @ str ''] '' @ label_added @ [NL] @ text"

definition add_to_library ::
  "'st disk \<Rightarrow> libs \<Rightarrow> 'st \<Rightarrow> datetime \<Rightarrow> pystr \<Rightarrow> pystr \<Rightarrow> bool \<times> 'st" where
  "add_to_library d L st now profile_name text =
     (let current = read_profile_file d L st profile_name (str ''library'');
          new_content = (if truthy current then pyfmt current @ added_block now text else text)
      in save_profile_file d L st profile_name (str ''library'') new_content)"

section \<open>A store in memory and a stand-in document codec\<close>

text \<open>
  The examples run on a backend that keeps files and folders in memory and never
  fails, with root folder \<^verbatim>\<open>XLog\<close>, and on libraries without charset detection whose
  document codec writes the magic bytes \<^verbatim>\<open>PK\<close> followed by the UTF-8 of the paragraphs
  joined by newlines, and rejects a blob without the magic.
\<close>

record store =
  store_files :: "pystr \<rightharpoonup> bytes"
  store_dirs :: "pystr set"

definition empty_store :: store where
  "empty_store = \<lparr>store_files = Map.empty, store_dirs = {}\<rparr>"

definition mem_disk :: "store disk" where
  "mem_disk =
     \<lparr>root_folder = str ''XLog'',
      client_exists = (\<lambda>st p. Inr (p \<in> dom (store_files st) \<or> p \<in> store_dirs st)),
      client_mkdir = (\<lambda>st p. Inr (st\<lparr>store_dirs := insert p (store_dirs st)\<rparr>)),
      client_download =
        (\<lambda>st p. case store_files st p of None \<Rightarrow> Inl BackendError | Some b \<Rightarrow> Inr b),
      client_upload = (\<lambda>st b p. Inr (st\<lparr>store_files := (store_files st)(p \<mapsto> b)\<rparr>))\<rparr>"

definition stub_docx_build :: "pystr list \<Rightarrow> exn + bytes" where
  "stub_docx_build ps =
     (case utf8_encode (join [NL] ps) of
        None \<Rightarrow> Inl ValueError
      | Some b \<Rightarrow> Inr (0x50 # 0x4B # b))"

definition stub_docx_parse :: "bytes \<Rightarrow> exn + pystr list" where
  "stub_docx_parse blob =
     (if take 2 blob = [0x50, 0x4B] then
        (case utf8_decode Strict (drop 2 blob) of
           None \<Rightarrow> Inl BackendError
         | Some t \<Rightarrow> Inr (split_on NL t))
      else Inl BackendError)"

definition stub_libs :: libs where
  "stub_libs =
     \<lparr>charset_detect_available = False,
      from_bytes_best = (\<lambda>raw. Inr None),
      docx_parse = stub_docx_parse,
      docx_build = stub_docx_build\<rparr>"

text \<open>
  Libraries with charset detection installed. For the one byte \<^verbatim>\<open>0x3F\<close>, the question
  mark, the best match of charset-normalizer is an EBCDIC code page, in which this
  byte is the control character \<^verbatim>\<open>U+001A\<close>; for every other input this stand-in gives
  no match, which leaves the decoding to the fallback.
\<close>

definition guessing_libs :: libs where
  "guessing_libs =
     \<lparr>charset_detect_available = True,
      from_bytes_best = (\<lambda>raw. if raw = [0x3F] then Inr (Some [0x1A]) else Inr None),
      docx_parse = stub_docx_parse,
      docx_build = stub_docx_build\<rparr>"

section \<open>Assumptions on the collaborators\<close>

text \<open>The backend stores blobs faithfully: an upload succeeds, and afterwards the object
  exists and downloads as the uploaded bytes.\<close>

definition stores_faithfully :: "'st disk \<Rightarrow> bool" where
  "stores_faithfully d \<longleftrightarrow>
     (\<forall>st blob path. \<exists>st'. client_upload d st blob path = Inr st'
        \<and> client_exists d st' path = Inr True
        \<and> client_download d st' path = Inr blob)"

text \<open>The document codec preserves the paragraph texts \<open>ps\<close>: it saves them, and opening
  the saved file gives them back.\<close>

definition codec_preserves :: "libs \<Rightarrow> pystr list \<Rightarrow> bool" where
  "codec_preserves L ps \<longleftrightarrow>
     (\<exists>blob. docx_build L ps = Inr blob \<and> docx_parse L blob = Inr ps)"

section \<open>Notions used in the statements\<close>

text \<open>What a read contributes to the dictionary of a profile: the content, or the empty
  string when the read returned nothing or raised.\<close>

definition content_or_empty :: "exn + pystr option \<Rightarrow> pystr" where
  "content_or_empty res = (case res of Inr (Some c) \<Rightarrow> c | _ \<Rightarrow> [])"

definition document_text :: "'st disk \<Rightarrow> libs \<Rightarrow> 'st \<Rightarrow> pystr \<Rightarrow> pystr \<Rightarrow> pystr" where
  "document_text d L st profile_name key =
     content_or_empty (Inr (read_file d L st (profile_name @ str ''/'' @ key @ str ''.docx'')))"

text \<open>ASCII texts and their bytes.\<close>

definition is_ascii :: "pystr \<Rightarrow> bool" where
  "is_ascii s \<longleftrightarrow> list_all (\<lambda>c. c < 128) s"

definition ascii_bytes :: "pystr \<Rightarrow> bytes" where
  "ascii_bytes s = map of_nat s"

text \<open>Charset detection, where it is installed and gives a best match for \<open>raw\<close>, reads
  \<open>raw\<close> as the text \<open>T\<close>.\<close>

definition detection_reads :: "libs \<Rightarrow> bytes \<Rightarrow> pystr \<Rightarrow> bool" where
  "detection_reads L raw T \<longleftrightarrow>
     (charset_detect_available L \<longrightarrow>
        (\<forall>content. from_bytes_best L raw = Inr (Some content) \<longrightarrow> content = T))"

text \<open>The last five characters of a path are \<^verbatim>\<open>.docx\<close> in any mix of upper and lower
  case.\<close>

definition caseless_docx :: "pystr \<Rightarrow> bool" where
  "caseless_docx p \<longleftrightarrow>
     5 \<le> length p \<and>
     (let e = drop (length p - 5) p in
      e ! 0 = 46 \<and> (e ! 1 = 100 \<or> e ! 1 = 68) \<and> (e ! 2 = 111 \<or> e ! 2 = 79)
      \<and> (e ! 3 = 99 \<or> e ! 3 = 67) \<and> (e ! 4 = 120 \<or> e ! 4 = 88))"

text \<open>A labelled section, and the sections of the non-empty bodies with a blank line
  between them.\<close>

definition section_block :: "pystr \<Rightarrow> pystr \<Rightarrow> pystr" where
  "section_block label body = label @ [NL] @ body @ [NL]"

definition compose_sections :: "(pystr \<times> pystr) list \<Rightarrow> pystr" where
  "compose_sections xs =
     join [NL] (map (\<lambda>(label, body). section_block label body)
                    (filter (\<lambda>(label, body). body \<noteq> []) xs))"

subsection \<open>Inputs of the examples\<close>

definition march_1 :: datetime where
  "march_1 = \<lparr>year = 2024, month = 3, day = 1, hour = 9, minute = 30, second = 0\<rparr>"

definition march_15 :: datetime where
  "march_15 = \<lparr>year = 2024, month = 3, day = 15, hour = 9, minute = 30, second = 0\<rparr>"

definition march_16 :: datetime where
  "march_16 = \<lparr>year = 2024, month = 3, day = 16, hour = 18, minute = 5, second = 7\<rparr>"

text \<open>A store whose only file is the log of 15 March 2024 of profile \<^verbatim>\<open>p\<close>, with the
  two lines \<^verbatim>\<open>a\<close> and \<^verbatim>\<open>b\<close>; and a store whose only file is \<^verbatim>\<open>NOTES.DOCX\<close> with the
  two bytes \<^verbatim>\<open>hi\<close>.\<close>

definition log_store :: store where
  "log_store =
     \<lparr>store_files = [str ''/XLog/p/logs/2024/03/15/log.txt'' \<mapsto> [0x61, 0x0A, 0x62, 0x0A]],
      store_dirs = {}\<rparr>"

definition notes_store :: store where
  "notes_store = \<lparr>store_files = [str ''/XLog/NOTES.DOCX'' \<mapsto> [0x68, 0x69]], store_dirs = {}\<rparr>"

section \<open>Evaluation rules\<close>

lemmas backend_eval =
  mem_disk_def full_path_def read_docx_def read_text_file_def read_file_def write_file_def
  write_docx_def write_text_file_def endswith_def suffix_to_prefix lower_def lower_cp_def
  fallback_decode_def encodings_def strip_bom_def on_error_def is_cont_def second_ok3_def
  second_ok4_def ensure_parent_def parent_folder_def ensure_folder_exists_def

lemmas stub_eval =
  codec_preserves_def stub_libs_def stub_docx_build_def stub_docx_parse_def
  utf8_encode_cp_def utf8_decode_def emit_def

lemmas date_eval =
  replace_day_def days_in_month_def is_leap_def strftime_date_path_def strftime_time_def
  strftime_stamp_def fmt02_def fmt_year_def digit_def log_path_of_def


section \<open>Splitting and joining\<close>

lemma split_on_not_Nil: "split_on c s \<noteq> []"
  by (induction s) (auto split: list.splits)

lemma join_split_on: "join [c] (split_on c s) = s"
proof (induction s)
  case Nil
  show ?case by simp
next
  case (Cons x xs)
  obtain w ws where sp: "split_on c xs = w # ws"
    using split_on_not_Nil [of c xs] by (cases "split_on c xs") auto
  show ?case
  proof (cases "x = c")
    case True
    with Cons sp show ?thesis by simp
  next
    case False
    have "join [c] ((x # w) # ws) = x # join [c] (w # ws)"
      by (cases ws) simp_all
    with False Cons sp show ?thesis by simp
  qed
qed

section \<open>The stand-ins meet the assumptions\<close>

lemma mem_disk_faithful: "stores_faithfully mem_disk"
  by (simp add: stores_faithfully_def mem_disk_def)

lemma stub_preserves_two_lines:
  "codec_preserves stub_libs (split_on NL (str ''a'' @ [NL] @ str ''b''))"
  by (simp add: stub_eval)

section \<open>Rich documents: writing and reading back\<close>

lemma read_docx_stored:
  assumes "client_exists d st (full_path d p) = Inr True"
    and "client_download d st (full_path d p) = Inr blob"
    and "docx_parse L blob = Inr ps"
  shows "read_docx d L st p = Some (join [NL] ps)"
  using assms by (simp add: read_docx_def)

lemma write_docx_then_read:
  assumes faithful: "stores_faithfully d"
    and codec: "codec_preserves L (split_on NL T)"
  shows "\<exists>st'. write_docx d L st p T = (True, st') \<and> read_docx d L st' p = Some T"
proof -
  obtain blob where build: "docx_build L (split_on NL T) = Inr blob"
    and parse: "docx_parse L blob = Inr (split_on NL T)"
    using codec unfolding codec_preserves_def by blast
  obtain st' where up: "client_upload d (ensure_parent d st p) blob (full_path d p) = Inr st'"
    and ex: "client_exists d st' (full_path d p) = Inr True"
    and down: "client_download d st' (full_path d p) = Inr blob"
    using faithful unfolding stores_faithfully_def by blast
  have w: "write_docx d L st p T = (True, st')"
    using build up by (simp add: write_docx_def)
  have r: "read_docx d L st' p = Some T"
    using read_docx_stored [OF ex down parse] by (simp add: join_split_on)
  from w r show ?thesis by blast
qed

text \<open>
  Claim C10. Writing a text \<open>T\<close> with \<^verbatim>\<open>write_docx\<close> and reading the same path with
  \<^verbatim>\<open>read_docx\<close> gives \<open>T\<close> back, for every text, path and remote state, when the backend
  stores blobs faithfully and the document codec preserves the paragraphs of \<open>T\<close>: the
  writer's split at newlines and the reader's join with newlines are inverse.
\<close>

theorem docx_round_trip:
  assumes "stores_faithfully d"
    and "codec_preserves L (split_on NL T)"
  shows "join [NL] (split_on NL T) = T
    \<and> (\<exists>st'. write_docx d L st p T = (True, st') \<and> read_docx d L st' p = Some T)"
  using assms write_docx_then_read [of d L T st p] by (simp add: join_split_on)

theorem docx_round_trip_witness:
  "stores_faithfully mem_disk
   \<and> codec_preserves stub_libs (split_on NL (str ''a'' @ [NL] @ str ''b''))
   \<and> (\<exists>st'. write_docx mem_disk stub_libs empty_store (str ''p/library.docx'')
               (str ''a'' @ [NL] @ str ''b'') = (True, st')
         \<and> read_docx mem_disk stub_libs st' (str ''p/library.docx'')
               = Some (str ''a'' @ [NL] @ str ''b''))"
  using docx_round_trip [OF mem_disk_faithful stub_preserves_two_lines]
    mem_disk_faithful stub_preserves_two_lines
  by blast

section \<open>The fallback decoder\<close>





text \<open>What \<^verbatim>\<open>errors='ignore'\<close> does to a byte that is not UTF-8: it is dropped.\<close>

lemma utf8_ignore_drops: "utf8_decode Ignore [0xFF] = Some []"
  by (simp add: utf8_decode_def on_error_def)



section \<open>Dispatch on the extension\<close>

lemma lower_cp_dot: "lower_cp a = 46 \<longleftrightarrow> a = 46"
  by (auto simp: lower_cp_def)

lemma lower_cp_d: "lower_cp a = 100 \<longleftrightarrow> a = 100 \<or> a = 68"
  by (auto simp: lower_cp_def)

lemma lower_cp_o: "lower_cp a = 111 \<longleftrightarrow> a = 111 \<or> a = 79"
  by (auto simp: lower_cp_def)

lemma lower_cp_c: "lower_cp a = 99 \<longleftrightarrow> a = 99 \<or> a = 67"
  by (auto simp: lower_cp_def)

lemma lower_cp_x: "lower_cp a = 120 \<longleftrightarrow> a = 120 \<or> a = 88"
  by (auto simp: lower_cp_def)

lemma suffix_iff_drop:
  "suffix xs ys \<longleftrightarrow> length xs \<le> length ys \<and> drop (length ys - length xs) ys = xs"
proof
  assume "suffix xs ys"
  then obtain zs where "ys = zs @ xs" by (auto simp: suffix_def)
  then show "length xs \<le> length ys \<and> drop (length ys - length xs) ys = xs" by simp
next
  assume "length xs \<le> length ys \<and> drop (length ys - length xs) ys = xs"
  then have "drop (length ys - length xs) ys = xs" by simp
  then show "suffix xs ys" using suffix_drop [of "length ys - length xs" ys] by simp
qed

lemma suffix_five:
  "suffix [a, b, c, d, f] ys \<longleftrightarrow> 5 \<le> length ys \<and> drop (length ys - 5) ys = [a, b, c, d, f]"
  using suffix_iff_drop [of "[a, b, c, d, f]" ys] by (simp add: eval_nat_numeral)

lemma length_five: "length e = 5 \<Longrightarrow> \<exists>a b c d f. e = [a, b, c, d, f]"
  by (auto simp: length_Suc_conv numeral_eq_Suc)

lemma endswith_lower_docx: "endswith (lower p) (str ''.docx'') \<longleftrightarrow> caseless_docx p"
proof (cases "5 \<le> length p")
  case False
  then show ?thesis
    by (simp add: endswith_def lower_def caseless_docx_def suffix_iff_drop)
next
  case True
  then have "length (drop (length p - 5) p) = 5" by simp
  then obtain a b c d f where e: "drop (length p - 5) p = [a, b, c, d, f]"
    using length_five by blast
  have "endswith (lower p) (str ''.docx'')
      \<longleftrightarrow> map lower_cp (drop (length p - 5) p) = [46, 100, 111, 99, 120]"
    using True by (simp add: endswith_def lower_def suffix_five drop_map)
  also have "\<dots> \<longleftrightarrow> caseless_docx p"
    using True e
    by (simp add: caseless_docx_def lower_cp_dot lower_cp_d lower_cp_o lower_cp_c lower_cp_x)
  finally show ?thesis .
qed

text \<open>
  Claim C7, as the code has it. \<^verbatim>\<open>read_file\<close> sends a path to the document reader
  exactly when its last five characters are \<^verbatim>\<open>.docx\<close> in any mix of upper and lower
  case, and to the plain-text reader otherwise; \<^verbatim>\<open>write_file\<close> chooses its writer by
  the same test; and \<^verbatim>\<open>read_file\<close> returns \<^verbatim>\<open>None\<close> when the client says that the
  remote object does not exist.
\<close>

theorem read_write_dispatch:
  "read_file d L st p = (if caseless_docx p then read_docx d L st p else read_text_file d L st p)
   \<and> write_file d L st p text =
       (if caseless_docx p then write_docx d L st p text else write_text_file d st p text)
   \<and> (client_exists d st (full_path d p) = Inr False \<longrightarrow> read_file d L st p = None)"
  unfolding read_file_def write_file_def endswith_lower_docx
  by (simp add: read_docx_def read_text_file_def)

theorem read_write_dispatch_witness:
  "client_exists mem_disk empty_store (full_path mem_disk (str ''a.txt'')) = Inr False
   \<and> read_file mem_disk stub_libs empty_store (str ''a.txt'') = None"
  using read_write_dispatch [of mem_disk stub_libs empty_store "str ''a.txt''"]
  by (simp add: backend_eval stub_eval empty_store_def)

text \<open>
  The path \<^verbatim>\<open>NOTES.DOCX\<close> does not end in \<^verbatim>\<open>.docx\<close>, yet \<^verbatim>\<open>read_file\<close> hands it to the
  document reader: the stored bytes \<^verbatim>\<open>hi\<close> are no document, so the result is \<^verbatim>\<open>None\<close>,
  where the plain-text reader returns \<^verbatim>\<open>hi\<close>.
\<close>

theorem dispatch_counterexample:
  "\<not> endswith (str ''NOTES.DOCX'') (str ''.docx'')
   \<and> read_file mem_disk stub_libs notes_store (str ''NOTES.DOCX'')
       = read_docx mem_disk stub_libs notes_store (str ''NOTES.DOCX'')
   \<and> read_docx mem_disk stub_libs notes_store (str ''NOTES.DOCX'') = None
   \<and> read_text_file mem_disk stub_libs notes_store (str ''NOTES.DOCX'') = Some (str ''hi'')"
  by (simp add: notes_store_def backend_eval stub_eval)

section \<open>Plain text: writing and reading back\<close>

lemma unat_ascii: "c < 128 \<Longrightarrow> unat (of_nat c :: 8 word) = c"
  by (simp add: unat_of_nat)

lemma ascii_encode: "is_ascii T \<Longrightarrow> utf8_encode T = Some (ascii_bytes T)"
  by (induction T) (simp_all add: is_ascii_def ascii_bytes_def utf8_encode_cp_def)

lemma ascii_dec: "is_ascii T \<Longrightarrow> utf8_dec m (map unat (ascii_bytes T)) = Some T"
  by (induction T) (simp_all add: is_ascii_def ascii_bytes_def unat_ascii emit_def)

lemma ascii_strip_bom: "is_ascii T \<Longrightarrow> strip_bom T = T"
  by (cases T) (auto simp: is_ascii_def strip_bom_def)

lemma ascii_fallback: "is_ascii T \<Longrightarrow> fallback_decode (ascii_bytes T) = Some T"
  by (simp add: fallback_decode_def encodings_def utf8_decode_def ascii_dec ascii_strip_bom)

lemma read_text_file_stored:
  assumes ex: "client_exists d st (full_path d p) = Inr True"
    and down: "client_download d st (full_path d p) = Inr (ascii_bytes T)"
    and ascii: "is_ascii T"
    and det: "detection_reads L (ascii_bytes T) T"
  shows "read_text_file d L st p = Some T"
proof (cases "charset_detect_available L \<and> ascii_bytes T \<noteq> []")
  case False
  with ex down ascii show ?thesis
    by (auto simp: read_text_file_def ascii_fallback)
next
  case True
  then have avail: "charset_detect_available L" and ne: "ascii_bytes T \<noteq> []" by simp_all
  show ?thesis
  proof (cases "from_bytes_best L (ascii_bytes T)")
    case (Inl e)
    with ex down ascii avail ne show ?thesis
      by (simp add: read_text_file_def ascii_fallback)
  next
    case (Inr guess)
    show ?thesis
    proof (cases guess)
      case None
      with Inr ex down ascii avail ne show ?thesis
        by (simp add: read_text_file_def ascii_fallback)
    next
      case (Some content)
      with Inr det avail have "content = T"
        by (simp add: detection_reads_def)
      with Some Inr ex down ascii avail ne show ?thesis
        by (simp add: read_text_file_def ascii_strip_bom)
    qed
  qed
qed

text \<open>
  Claim C8, with what it needs of the libraries. For every ASCII text \<open>T\<close> and every
  path that does not end in \<^verbatim>\<open>.docx\<close>, writing \<open>T\<close> with \<^verbatim>\<open>write_file\<close> and reading the
  same path with \<^verbatim>\<open>read_file\<close> gives \<open>T\<close> back, when the backend stores the uploaded
  bytes faithfully and
  \<^item> for a path whose last five characters are not \<^verbatim>\<open>.docx\<close> in any case of the letters,
    which goes through the plain-text writer and reader: charset detection is not
    installed, or gives no best match for the bytes of \<open>T\<close>, or reads them as \<open>T\<close>;
  \<^item> for a path whose last five characters are \<^verbatim>\<open>.docx\<close> in another case, such as
    \<^verbatim>\<open>.DOCX\<close>, which goes through the document writer and reader: the document codec
    preserves the paragraphs of \<open>T\<close>.
\<close>

theorem plain_text_round_trip:
  assumes faithful: "stores_faithfully d"
    and ascii: "is_ascii T"
    and non_docx: "\<not> endswith p (str ''.docx'')"
    and det: "\<not> caseless_docx p \<Longrightarrow> detection_reads L (ascii_bytes T) T"
    and codec: "caseless_docx p \<Longrightarrow> codec_preserves L (split_on NL T)"
  shows "\<exists>st'. write_file d L st p T = (True, st') \<and> read_file d L st' p = Some T"
proof (cases "caseless_docx p")
  case True
  then have docx: "endswith (lower p) (str ''.docx'')"
    unfolding endswith_lower_docx .
  obtain st' where w: "write_docx d L st p T = (True, st')"
    and r: "read_docx d L st' p = Some T"
    using write_docx_then_read [OF faithful codec [OF True]] by blast
  have "write_file d L st p T = (True, st')"
    using docx w by (simp add: write_file_def)
  moreover have "read_file d L st' p = Some T"
    using docx r by (simp add: read_file_def)
  ultimately show ?thesis by blast
next
  case False
  then have plain: "\<not> endswith (lower p) (str ''.docx'')"
    unfolding endswith_lower_docx .
  obtain st' where
    up: "client_upload d (ensure_parent d st p) (ascii_bytes T) (full_path d p) = Inr st'"
    and ex: "client_exists d st' (full_path d p) = Inr True"
    and down: "client_download d st' (full_path d p) = Inr (ascii_bytes T)"
    using faithful unfolding stores_faithfully_def by blast
  have w: "write_file d L st p T = (True, st')"
    using plain up ascii_encode [OF ascii] by (simp add: write_file_def write_text_file_def)
  have r: "read_file d L st' p = Some T"
    using plain read_text_file_stored [OF ex down ascii det [OF False]]
    by (simp add: read_file_def)
  from w r show ?thesis by blast
qed

text \<open>The text \<^verbatim>\<open>hi\<close> on the paths \<^verbatim>\<open>notes.txt\<close> and \<^verbatim>\<open>NOTES.DOCX\<close>, neither of which
  ends in \<^verbatim>\<open>.docx\<close>: the first takes the plain-text pair, the second the document
  pair.\<close>

theorem plain_text_round_trip_witness:
  "stores_faithfully mem_disk
   \<and> is_ascii (str ''hi'')
   \<and> \<not> endswith (str ''notes.txt'') (str ''.docx'')
   \<and> \<not> caseless_docx (str ''notes.txt'')
   \<and> detection_reads stub_libs (ascii_bytes (str ''hi'')) (str ''hi'')
   \<and> (\<exists>st'. write_file mem_disk stub_libs empty_store (str ''notes.txt'') (str ''hi'')
               = (True, st')
         \<and> read_file mem_disk stub_libs st' (str ''notes.txt'') = Some (str ''hi''))
   \<and> \<not> endswith (str ''NOTES.DOCX'') (str ''.docx'')
   \<and> caseless_docx (str ''NOTES.DOCX'')
   \<and> codec_preserves stub_libs (split_on NL (str ''hi''))
   \<and> (\<exists>st'. write_file mem_disk stub_libs empty_store (str ''NOTES.DOCX'') (str ''hi'')
               = (True, st')
         \<and> read_file mem_disk stub_libs st' (str ''NOTES.DOCX'') = Some (str ''hi''))"
proof -
  have h2: "is_ascii (str ''hi'')" by (simp add: is_ascii_def)
  have n1: "\<not> endswith (str ''notes.txt'') (str ''.docx'')"
    by (simp add: endswith_def suffix_to_prefix)
  have c1: "\<not> caseless_docx (str ''notes.txt'')"
    by (simp add: caseless_docx_def)
  have d1: "detection_reads stub_libs (ascii_bytes (str ''hi'')) (str ''hi'')"
    by (simp add: detection_reads_def stub_libs_def)
  have n2: "\<not> endswith (str ''NOTES.DOCX'') (str ''.docx'')"
    by (simp add: endswith_def suffix_to_prefix)
  have c2: "caseless_docx (str ''NOTES.DOCX'')"
    by (simp add: caseless_docx_def)
  have p2: "codec_preserves stub_libs (split_on NL (str ''hi''))"
    by (simp add: stub_eval)
  have r1: "\<exists>st'. write_file mem_disk stub_libs empty_store (str ''notes.txt'') (str ''hi'')
               = (True, st')
         \<and> read_file mem_disk stub_libs st' (str ''notes.txt'') = Some (str ''hi'')"
    using c1 by (intro plain_text_round_trip [OF mem_disk_faithful h2 n1 d1]) simp_all
  have r2: "\<exists>st'. write_file mem_disk stub_libs empty_store (str ''NOTES.DOCX'') (str ''hi'')
               = (True, st')
         \<and> read_file mem_disk stub_libs st' (str ''NOTES.DOCX'') = Some (str ''hi'')"
    using c2 by (intro plain_text_round_trip [OF mem_disk_faithful h2 n2 _ p2]) simp_all
  from mem_disk_faithful h2 n1 c1 d1 r1 n2 c2 p2 r2 show ?thesis by blast
qed

text \<open>
  With charset detection installed, the one-character ASCII text \<^verbatim>\<open>?\<close> written to
  \<^verbatim>\<open>q.txt\<close> on the faithful store in memory is stored as the byte \<^verbatim>\<open>0x3F\<close>, and
  \<^verbatim>\<open>_read_text_file\<close> returns the guess of the detection for it without a check: the
  text read back is \<^verbatim>\<open>U+001A\<close>, not \<^verbatim>\<open>?\<close>.
\<close>

theorem plain_text_round_trip_counterexample:
  "stores_faithfully mem_disk
   \<and> is_ascii (str ''?'')
   \<and> \<not> endswith (str ''q.txt'') (str ''.docx'')
   \<and> fst (write_file mem_disk guessing_libs empty_store (str ''q.txt'') (str ''?''))
   \<and> read_file mem_disk guessing_libs
        (snd (write_file mem_disk guessing_libs empty_store (str ''q.txt'') (str ''?'')))
        (str ''q.txt'') = Some [0x1A]
   \<and> [0x1A] \<noteq> str ''?''"
proof -
  have "is_ascii (str ''?'')
   \<and> \<not> endswith (str ''q.txt'') (str ''.docx'')
   \<and> fst (write_file mem_disk guessing_libs empty_store (str ''q.txt'') (str ''?''))
   \<and> read_file mem_disk guessing_libs
        (snd (write_file mem_disk guessing_libs empty_store (str ''q.txt'') (str ''?'')))
        (str ''q.txt'') = Some [0x1A]
   \<and> [0x1A] \<noteq> str ''?''"
    by (simp add: is_ascii_def guessing_libs_def empty_store_def backend_eval
        utf8_encode_cp_def)
  with mem_disk_faithful show ?thesis by blast
qed

section \<open>The files of a profile\<close>

lemma profile_file_step_eq:
  "profile_file_step r p files f =
     dict_set (py_replace (str ''.docx'') [] f)
       (Some (content_or_empty (r (p @ str ''/'' @ f)))) files"
  by (auto simp: profile_file_step_def content_or_empty_def truthy_def Let_def
      split: sum.splits option.splits)

lemma profile_files_listing:
  "get_profile_files_from r p =
     map (\<lambda>k. (k, Some (content_or_empty (r (p @ str ''/'' @ k @ str ''.docx'')))))
       [str ''key'', str ''king'', str ''rules'', str ''library'', str ''welcome'']"
  by (simp add: get_profile_files_from_def PROFILE_FILES_def profile_file_step_eq)

text \<open>
  Claim C5. Whatever \<^verbatim>\<open>read_file\<close> does for each of the five paths (return a text,
  return \<^verbatim>\<open>None\<close> or raise), and so for every profile name and every backend behind
  the \<^verbatim>\<open>read_file\<close> of this repository, \<^verbatim>\<open>get_profile_files\<close> returns a dictionary with
  exactly the keys \<^verbatim>\<open>key\<close>, \<^verbatim>\<open>king\<close>, \<^verbatim>\<open>rules\<close>, \<^verbatim>\<open>library\<close>, \<^verbatim>\<open>welcome\<close>, in this order,
  each bound to a string and never to \<^verbatim>\<open>None\<close>: the content read, or the empty string
  when nothing was read.
\<close>

theorem get_profile_files_five_keys:
  "get_profile_files_from r p =
     map (\<lambda>k. (k, Some (content_or_empty (r (p @ str ''/'' @ k @ str ''.docx'')))))
       [str ''key'', str ''king'', str ''rules'', str ''library'', str ''welcome'']
   \<and> get_profile_files d L st p =
     map (\<lambda>k. (k, Some (document_text d L st p k)))
       [str ''key'', str ''king'', str ''rules'', str ''library'', str ''welcome'']"
  by (simp add: get_profile_files_def profile_files_listing document_text_def)

section \<open>Adding to the library\<close>

lemma docx_path: "endswith (lower (q @ str ''.docx'')) (str ''.docx'')"
proof -
  have "lower (q @ str ''.docx'') = lower q @ str ''.docx''"
    by (simp add: lower_def lower_cp_def)
  then show ?thesis unfolding endswith_def by (metis suffixI)
qed

lemma library_is_docx:
  "read_file d L st (p @ str ''/library.docx'') = read_docx d L st (p @ str ''/library.docx'')"
  "write_file d L st (p @ str ''/library.docx'') X
     = write_docx d L st (p @ str ''/library.docx'') X"
  using docx_path [of "p @ str ''/library''"] by (simp_all add: read_file_def write_file_def)

lemma read_profile_file_library:
  "read_profile_file d L st p (str ''library'') =
     Some (case read_docx d L st (p @ str ''/library.docx'') of None \<Rightarrow> [] | Some c \<Rightarrow> c)"
  unfolding library_is_docx(1) [of d L st p, symmetric]
  by (simp add: read_profile_file_def get_profile_files_def profile_files_listing
      dict_get_def content_or_empty_def split: option.splits)

lemma add_to_library_writes:
  "add_to_library d L st now p text =
     write_docx d L st (p @ str ''/library.docx'')
       (case read_profile_file d L st p (str ''library'') of
          None \<Rightarrow> text
        | Some current \<Rightarrow> if current \<noteq> [] then current @ added_block now text else text)"
  unfolding library_is_docx(2) [of d L st p, symmetric]
  by (simp add: add_to_library_def save_profile_file_def truthy_def pyfmt_def Let_def
      split: option.splits)

text \<open>
  Claim C9, as the code has it. On a backend that stores blobs faithfully, with a
  codec that preserves the paragraphs written, and a library that reads as empty:
  \<^verbatim>\<open>add_to_library\<close> with a text \<open>A\<close> makes \<open>A\<close> the whole content. A second call with
  \<open>B\<close> at time \<open>t2\<close> then appends to a non-empty \<open>A\<close> a blank line and the block made of
  the time stamp of \<open>t2\<close> in brackets, the marker, a newline and \<open>B\<close>; when \<open>A\<close> is the
  empty text the library is still empty at the second call, and \<open>B\<close> becomes the whole
  content.
\<close>

theorem add_to_library_twice:
  assumes faithful: "stores_faithfully d"
    and empty: "read_profile_file d L st0 p (str ''library'') = Some []"
    and codecA: "codec_preserves L (split_on NL A)"
    and codecB: "codec_preserves L (split_on NL (if A = [] then B else A @ added_block t2 B))"
  shows "\<exists>st1 st2.
           add_to_library d L st0 t1 p A = (True, st1)
         \<and> read_profile_file d L st1 p (str ''library'') = Some A
         \<and> add_to_library d L st1 t2 p B = (True, st2)
         \<and> read_profile_file d L st2 p (str ''library'')
             = Some (if A = [] then B
                     else A @ [NL, NL] @ str ''['' @ strftime_stamp t2 @ str ''] ''
                            @ label_added @ [NL] @ B)"
proof -
  let ?second = "if A = [] then B else A @ added_block t2 B"
  obtain st1 where w1: "write_docx d L st0 (p @ str ''/library.docx'') A = (True, st1)"
    and r1: "read_docx d L st1 (p @ str ''/library.docx'') = Some A"
    using write_docx_then_read [OF faithful codecA] by blast
  have a1: "add_to_library d L st0 t1 p A = (True, st1)"
    using w1 empty unfolding add_to_library_writes by simp
  have c1: "read_profile_file d L st1 p (str ''library'') = Some A"
    using r1 unfolding read_profile_file_library by simp
  obtain st2 where
    w2: "write_docx d L st1 (p @ str ''/library.docx'') ?second = (True, st2)"
    and r2: "read_docx d L st2 (p @ str ''/library.docx'') = Some ?second"
    using write_docx_then_read [OF faithful codecB] by blast
  have a2: "add_to_library d L st1 t2 p B = (True, st2)"
    using w2 c1 unfolding add_to_library_writes by (cases "A = []") simp_all
  have c2: "read_profile_file d L st2 p (str ''library'') = Some ?second"
    using r2 unfolding read_profile_file_library by simp
  from a1 c1 a2 c2 show ?thesis
    by (auto simp: added_block_def)
qed

text \<open>The texts \<^verbatim>\<open>a\<close> then \<^verbatim>\<open>b\<close>, and the empty text then \<^verbatim>\<open>b\<close>, on the empty store in
  memory.\<close>

theorem add_to_library_twice_witness:
  "stores_faithfully mem_disk
   \<and> read_profile_file mem_disk stub_libs empty_store (str ''p'') (str ''library'') = Some []
   \<and> codec_preserves stub_libs (split_on NL (str ''a''))
   \<and> codec_preserves stub_libs (split_on NL (str ''a'' @ added_block march_16 (str ''b'')))
   \<and> (\<exists>st1 st2.
           add_to_library mem_disk stub_libs empty_store march_15 (str ''p'') (str ''a'')
             = (True, st1)
         \<and> read_profile_file mem_disk stub_libs st1 (str ''p'') (str ''library'')
             = Some (str ''a'')
         \<and> add_to_library mem_disk stub_libs st1 march_16 (str ''p'') (str ''b'') = (True, st2)
         \<and> read_profile_file mem_disk stub_libs st2 (str ''p'') (str ''library'')
             = Some (str ''a'' @ [NL, NL] @ str ''['' @ strftime_stamp march_16 @ str ''] ''
                       @ label_added @ [NL] @ str ''b''))
   \<and> codec_preserves stub_libs (split_on NL [])
   \<and> codec_preserves stub_libs (split_on NL (str ''b''))
   \<and> (\<exists>st1 st2.
           add_to_library mem_disk stub_libs empty_store march_15 (str ''p'') [] = (True, st1)
         \<and> read_profile_file mem_disk stub_libs st1 (str ''p'') (str ''library'') = Some []
         \<and> add_to_library mem_disk stub_libs st1 march_16 (str ''p'') (str ''b'') = (True, st2)
         \<and> read_profile_file mem_disk stub_libs st2 (str ''p'') (str ''library'')
             = Some (str ''b''))"
proof -
  have h2: "read_profile_file mem_disk stub_libs empty_store (str ''p'') (str ''library'')
      = Some []"
    by (simp add: read_profile_file_def get_profile_files_def profile_files_listing
        dict_get_def content_or_empty_def empty_store_def backend_eval stub_eval)
  have h4: "codec_preserves stub_libs (split_on NL (str ''a''))"
    by (simp add: stub_eval)
  have h5: "codec_preserves stub_libs (split_on NL (str ''a'' @ added_block march_16 (str ''b'')))"
    by (simp add: stub_eval added_block_def label_added_def march_16_def date_eval
        is_cont_def)
  have h6: "codec_preserves stub_libs (split_on NL [])"
    by (simp add: stub_eval)
  have h7: "codec_preserves stub_libs (split_on NL (str ''b''))"
    by (simp add: stub_eval)
  have r1: "\<exists>st1 st2.
           add_to_library mem_disk stub_libs empty_store march_15 (str ''p'') (str ''a'')
             = (True, st1)
         \<and> read_profile_file mem_disk stub_libs st1 (str ''p'') (str ''library'')
             = Some (str ''a'')
         \<and> add_to_library mem_disk stub_libs st1 march_16 (str ''p'') (str ''b'') = (True, st2)
         \<and> read_profile_file mem_disk stub_libs st2 (str ''p'') (str ''library'')
             = Some (str ''a'' @ [NL, NL] @ str ''['' @ strftime_stamp march_16 @ str ''] ''
                       @ label_added @ [NL] @ str ''b'')"
    using add_to_library_twice [OF mem_disk_faithful h2 h4, of "str ''b''" march_16 march_15] h5
    by simp
  have r2: "\<exists>st1 st2.
           add_to_library mem_disk stub_libs empty_store march_15 (str ''p'') [] = (True, st1)
         \<and> read_profile_file mem_disk stub_libs st1 (str ''p'') (str ''library'') = Some []
         \<and> add_to_library mem_disk stub_libs st1 march_16 (str ''p'') (str ''b'') = (True, st2)
         \<and> read_profile_file mem_disk stub_libs st2 (str ''p'') (str ''library'')
             = Some (str ''b'')"
    using add_to_library_twice [OF mem_disk_faithful h2 h6, of "str ''b''" march_16 march_15] h7
    by simp
  from mem_disk_faithful h2 h4 h5 r1 h6 h7 r2 show ?thesis by blast
qed

text \<open>
  With the empty text first, the library is still empty at the second call, so \<^verbatim>\<open>b\<close>
  becomes the whole content: no block with a time stamp follows the first text.
\<close>

theorem add_to_library_empty_first_text:
  "read_profile_file mem_disk stub_libs
     (snd (add_to_library mem_disk stub_libs
        (snd (add_to_library mem_disk stub_libs empty_store march_15 (str ''p'') []))
        march_16 (str ''p'') (str ''b'')))
     (str ''p'') (str ''library'') = Some (str ''b'')
   \<and> str ''b'' \<noteq> [] @ added_block march_16 (str ''b'')"
  by (simp add: add_to_library_def save_profile_file_def read_profile_file_def
      get_profile_files_def profile_files_listing dict_get_def content_or_empty_def
      truthy_def pyfmt_def empty_store_def backend_eval stub_eval added_block_def Let_def)

section \<open>Recent messages and the context\<close>

text \<open>On a day after the first of its month, with a positive limit, the tail is the
  last \<open>limit\<close> lines of the stripped log of today, or all of them when there are
  fewer.\<close>

lemma get_recent_messages_tail:
  assumes date: "valid_datetime now" "2 \<le> day now"
    and limit: "0 < limit"
    and today: "read_text_file d L st (log_path_of p now) = Some text" "text \<noteq> []"
  shows "get_recent_messages d L st now p limit =
     Inr (join [NL] (drop (length (split_on NL (strip text)) - nat limit)
                          (split_on NL (strip text))))"
proof -
  have "replace_day now (int (day now) - 1) = Inr (now\<lparr>day := day now - 1\<rparr>)"
    using date by (auto simp: replace_day_def valid_datetime_def nat_diff_distrib)
  moreover have "slice_from (- limit) xs = drop (length xs - nat limit) xs"
    for xs :: "pystr list"
  proof -
    have "nat (int (length xs) - limit) = length xs - nat limit"
      using limit by linarith
    with limit show ?thesis by (simp add: slice_from_def)
  qed
  ultimately show ?thesis
    using today limit
    by (auto simp: get_recent_messages_def truthy_def Let_def)
qed

text \<open>When \<^verbatim>\<open>get_recent_messages\<close> returns, the context is the persona, rules,
  knowledge and recent-messages sections in this order, without those whose body is
  empty, and with a blank line between two sections.\<close>

lemma build_context_sections:
  assumes "get_recent_messages d L st now p limit = Inr recent"
  shows "build_context d L st now p limit =
     Inr (compose_sections
       [(label_king, document_text d L st p (str ''king'')),
        (label_rules, document_text d L st p (str ''rules'')),
        (label_library, document_text d L st p (str ''library'')),
        (label_recent, recent)])"
  using assms
  by (simp add: build_context_def get_profile_files_def profile_files_listing dict_get_def
      truthy_def pyfmt_def compose_sections_def section_block_def document_text_def Let_def)

text \<open>
  Claim C2. \<^verbatim>\<open>get_recent_messages\<close> is to raise nothing, on the first day of a month
  too. On that day \<^verbatim>\<open>replace(day=today.day - 1)\<close> asks for day 0, and the
  \<^verbatim>\<open>ValueError\<close> leaves the method, whatever the profile, the limit and the backend:
  so for every date whose day is 1, and for 1 March 2024.
\<close>

theorem get_recent_messages_first_of_month:
  "get_recent_messages d L st (now\<lparr>day := 1\<rparr>) profile_name limit = Inl ValueError
   \<and> get_recent_messages d L st march_1 profile_name limit = Inl ValueError"
  by (simp add: get_recent_messages_def march_1_def replace_day_def)

text \<open>
  Claim C6. \<^verbatim>\<open>build_context\<close> is to return the composed sections, and the empty string
  when all documents and the log are empty. On the first day of a month it returns
  nothing: the \<^verbatim>\<open>ValueError\<close> of \<^verbatim>\<open>get_recent_messages\<close> passes through it, whatever
  the documents hold.
\<close>

theorem build_context_first_of_month:
  "build_context d L st (now\<lparr>day := 1\<rparr>) profile_name limit = Inl ValueError
   \<and> build_context mem_disk stub_libs empty_store march_1 (str ''p'') 10 = Inl ValueError"
  by (simp add: build_context_def get_recent_messages_def march_1_def replace_day_def Let_def)

text \<open>
  Claim C3. With limit 0 the tail is to hold at most 0 lines. The log of today has
  two lines, and \<^verbatim>\<open>lines[-0:]\<close> is the whole list: both lines are returned.
\<close>

theorem get_recent_messages_limit_zero:
  "get_recent_messages mem_disk stub_libs log_store march_15 (str ''p'') 0
     = Inr (str ''a'' @ [NL] @ str ''b'')"
  by (simp add: get_recent_messages_def march_15_def log_store_def date_eval backend_eval
      stub_eval truthy_def strip_def isspace_def slice_from_def Let_def)

section \<open>Saving a message\<close>

text \<open>\<^verbatim>\<open>_write_text_file\<close> has no parameter \<^verbatim>\<open>append\<close>: the call raises \<^verbatim>\<open>TypeError\<close>,
  the handler logs it, and all that \<^verbatim>\<open>save_message\<close> has done is to ensure the
  folder.\<close>

lemma save_message_no_write:
  "save_message d st profile_name role text timestamp =
     snd (ensure_folder_exists d st
            (profile_name @ str ''/logs/'' @ strftime_date_path timestamp))"
  by (simp add: save_message_def call_kw_def write_text_file_params_def Let_def)

text \<open>
  Claim C1. \<^verbatim>\<open>save_message\<close> is to create the log file of the day with the formatted
  line when the file is absent, and to add the line at its end otherwise. On the empty
  store, after saving the message \<^verbatim>\<open>hi\<close> of \<^verbatim>\<open>user\<close> in profile \<^verbatim>\<open>p\<close> on 15 March
  2024, the log file of that day still does not exist and reads as \<^verbatim>\<open>None\<close>; on the
  store that has this log file with the lines \<^verbatim>\<open>a\<close> and \<^verbatim>\<open>b\<close>, the file reads as these
  two lines afterwards, without the new one.
\<close>

theorem save_message_writes_nothing:
  "client_exists mem_disk
      (save_message mem_disk empty_store (str ''p'') (str ''user'') (str ''hi'') march_15)
      (str ''/XLog/p/logs/2024/03/15/log.txt'') = Inr False
   \<and> read_text_file mem_disk stub_libs
      (save_message mem_disk empty_store (str ''p'') (str ''user'') (str ''hi'') march_15)
      (str ''p/logs/2024/03/15/log.txt'') = None
   \<and> read_text_file mem_disk stub_libs
      (save_message mem_disk log_store (str ''p'') (str ''user'') (str ''hi'') march_15)
      (str ''p/logs/2024/03/15/log.txt'') = Some (str ''a'' @ [NL] @ str ''b'' @ [NL])"
  by (simp add: save_message_no_write march_15_def empty_store_def log_store_def date_eval
      backend_eval stub_eval emit_def Let_def)

end
